theory Spec2Isabelle
  imports Complex_Main "HOL-Library.Word"
begin

section \<open>The JWT middleware of go-json-rest (auth_jwt.go)\<close>

text \<open>
  A shallow embedding of \<^verbatim>\<open>auth_jwt.go\<close>. The file is one Go package built on two
  libraries that are not part of it: \<^verbatim>\<open>dgrijalva/jwt-go\<close> (signing and parsing of
  tokens) and \<^verbatim>\<open>ant0ine/go-json-rest/rest\<close> (requests and response writers). The
  package's own functions are embedded as they are written; the two libraries enter as
  parameters and as logs of the calls made on them.
\<close>

subsection \<open>Go values\<close>

text \<open>
  Go strings are byte strings: \<open>string\<close>. A \<^verbatim>\<open>[]byte\<close> that may be \<^verbatim>\<open>nil\<close> is an
  optional list of bytes, a \<^verbatim>\<open>func\<close> value that may be \<^verbatim>\<open>nil\<close> an optional function.
\<close>

type_synonym bytes = "8 word list"

text \<open>
  \<^verbatim>\<open>time.Duration\<close> is an \<^verbatim>\<open>int64\<close> count of nanoseconds: a word of 64 bits, read
  as a signed number by \<open>sint\<close>. Its negation wraps around, so the smallest duration is
  its own negative. \<^verbatim>\<open>time.Time\<close> is an instant, counted here in nanoseconds since the
  Unix epoch; \<^verbatim>\<open>Time.Add\<close> and \<^verbatim>\<open>Time.Unix\<close> work on a count of seconds that no clock
  reading exhausts, so instants and their Unix seconds are unbounded integers.
  \<^verbatim>\<open>Time.Unix\<close> gives the whole seconds since the epoch, rounded down.
\<close>

type_synonym time = int
type_synonym duration = "64 word"

definition Second :: duration where
  "Second = 1000000000"

definition Hour :: duration where
  "Hour = 3600 * Second"

definition Add :: "time \<Rightarrow> duration \<Rightarrow> time" where
  "Add t d = t + sint d"

definition Unix :: "time \<Rightarrow> int" where
  "Unix t = t div 1000000000"

text \<open>
  The values held in \<^verbatim>\<open>token.Claims\<close> and \<^verbatim>\<open>request.Env\<close>, both
  \<^verbatim>\<open>map[string]interface{}\<close>, by their dynamic type. The handlers store \<^verbatim>\<open>string\<close> and
  \<^verbatim>\<open>int64\<close> values; a parsed token holds what JSON decoding gives, where every number
  is a \<^verbatim>\<open>float64\<close>. A \<^verbatim>\<open>float64\<close> is idealised as the real number it denotes;
  \<open>Null\<close> is the nil interface value. Arrays and nested objects, which the package never
  looks into, are left out.
\<close>

datatype jvalue =
    Null
  | String string
  | Int64 int
  | Float64 real
  | Bool bool

type_synonym claims = "string \<rightharpoonup> jvalue"

text \<open>Indexing a Go map: a key that is not there gives the nil interface value.\<close>

definition index :: "claims \<Rightarrow> string \<Rightarrow> jvalue" where
  "index m k = (case m k of None \<Rightarrow> Null | Some v \<Rightarrow> v)"

text \<open>
  The conversion \<^verbatim>\<open>int64(x)\<close> of a \<^verbatim>\<open>float64\<close> drops the fraction (rounds towards
  zero). When the result does not fit 64 bits, Go leaves the value to the
  implementation: it is some \<^verbatim>\<open>int64\<close> that depends on the platform. The platform is a
  parameter \<open>cvt\<close>, the function that gives this value.
\<close>

definition trunc :: "real \<Rightarrow> int" where
  "trunc x = (if 0 \<le> x then \<lfloor>x\<rfloor> else \<lceil>x\<rceil>)"

definition fits_int64 :: "real \<Rightarrow> bool" where
  "fits_int64 x \<longleftrightarrow> - (2 ^ 63) \<le> trunc x \<and> trunc x < 2 ^ 63"

type_synonym platform = "real \<Rightarrow> 64 word"

definition int64 :: "platform \<Rightarrow> real \<Rightarrow> int" where
  "int64 cvt x = (if fits_int64 x then trunc x else sint (cvt x))"

text \<open>
  A function either returns or panics (a failed type assertion, a call of a nil
  function).
\<close>

datatype 'a outcome = Panic | Return 'a

subsection \<open>Requests and response writers (go-json-rest)\<close>

record login =
  Username :: string
  Password :: string

text \<open>
  Of a \<^verbatim>\<open>rest.Request\<close> the package reads the headers, decodes the JSON body into a
  \<^verbatim>\<open>login\<close> and writes the environment \<^verbatim>\<open>Env\<close> (a map the framework creates for
  every request). \<open>JsonPayload\<close> is what
  \<^verbatim>\<open>request.DecodeJsonPayload(&login_vals)\<close> leaves in \<^verbatim>\<open>login_vals\<close>, \<open>None\<close> when it
  returns an error.
\<close>

record request =
  Header :: "string \<rightharpoonup> string"
  Env :: "string \<rightharpoonup> jvalue"
  JsonPayload :: "login option"

text \<open>\<^verbatim>\<open>request.Header.Get(key)\<close>: the empty string when the header is absent.\<close>

definition Header_Get :: "request \<Rightarrow> string \<Rightarrow> string" where
  "Header_Get r k = (case Header r k of None \<Rightarrow> [] | Some v \<Rightarrow> v)"

text \<open>
  A \<^verbatim>\<open>rest.ResponseWriter\<close> is the list of the calls made on it so far, in order:
  \<^verbatim>\<open>writer.Header().Set(k, v)\<close>, \<^verbatim>\<open>rest.Error(writer, msg, code)\<close> and
  \<^verbatim>\<open>writer.WriteJson(&map[string]string{k: v})\<close>.
\<close>

datatype writer_call =
    Header_Set string string
  | rest_Error string nat
  | WriteJson "(string \<times> string) list"

type_synonym writer = "writer_call list"

type_synonym handler = "writer \<Rightarrow> request \<Rightarrow> writer"

definition StatusUnauthorized :: nat where
  "StatusUnauthorized = 401"

subsection \<open>The token library (jwt-go)\<close>

text \<open>
  The package calls the library in two places. \<open>SignedString alg c key\<close> stands for
  \<^verbatim>\<open>jwt.New(jwt.GetSigningMethod(alg))\<close>, the claims \<open>c\<close> stored in the new token, and
  \<^verbatim>\<open>token.SignedString(key)\<close>: it panics (an algorithm name that is not registered
  gives a nil method), returns an error message, or returns the token string.
  \<open>Parse s key now\<close> stands for \<^verbatim>\<open>jwt.Parse(s, keyfunc)\<close> with a key function that
  returns \<open>key\<close>, at clock reading \<open>now\<close>: an error message, or the claims of a token that
  the library accepts.
\<close>

record jwt =
  SignedString :: "string \<Rightarrow> claims \<Rightarrow> bytes option \<Rightarrow> (string + string) outcome"
  Parse :: "string \<Rightarrow> bytes option \<Rightarrow> time \<Rightarrow> string + claims"

subsection \<open>The standard library: \<^verbatim>\<open>strings.SplitN\<close>\<close>

text \<open>
  \<^verbatim>\<open>strings.SplitN(s, sep, 2)\<close> for a separator of one byte: \<open>s\<close> alone when the
  separator does not occur, else the text before its first occurrence and the whole
  text after it.
\<close>

definition SplitN2 :: "string \<Rightarrow> char \<Rightarrow> string list" where
  "SplitN2 s sep =
     (if sep \<in> set s
      then [takeWhile (\<lambda>c. c \<noteq> sep) s, tl (dropWhile (\<lambda>c. c \<noteq> sep) s)]
      else [s])"

subsection \<open>The middleware\<close>

record JWTMiddleware =
  Realm :: string
  SigningAlgorithm :: string
  Key :: "bytes option"
  Timeout :: duration
  MaxRefresh :: duration
  Authenticator :: "(string \<Rightarrow> string \<Rightarrow> bool) option"
  Authorizator :: "(string \<Rightarrow> request \<Rightarrow> bool) option"
  NeedPrompt :: bool

text \<open>\<^verbatim>\<open>unauthorized\<close>: the one response of every rejection.\<close>

definition unauthorized :: "JWTMiddleware \<Rightarrow> writer \<Rightarrow> writer" where
  "unauthorized mw writer =
     (if NeedPrompt mw
      then writer @ [Header_Set ''WWW-Authenticate'' (''Basic realm='' @ Realm mw),
                     rest_Error ''Not Authorized'' StatusUnauthorized]
      else writer @ [WriteJson [(''Error'', ''Not Authorized'')]])"

text \<open>
  \<^verbatim>\<open>parseToken\<close>: the header check, then the library's parse of the second part.
  \<open>now\<close> is the clock reading the library takes.
\<close>

definition parseToken :: "jwt \<Rightarrow> request \<Rightarrow> bytes option \<Rightarrow> time \<Rightarrow> string + claims" where
  "parseToken lib request key now =
     (let authHeader = Header_Get request ''Authorization'' in
      if authHeader = [] then Inl ''Auth header empty''
      else
        let parts = SplitN2 authHeader CHR '' '' in
        if \<not> (length parts = 2 \<and> parts ! 0 = ''Bearer'') then Inl ''Invalid auth header''
        else Parse lib (parts ! 1) key now)"

text \<open>
  \<^verbatim>\<open>middlewareImpl\<close>. The receiver is a pointer, so the function returns the
  configuration it leaves behind together with the writer. The type assertion
  \<^verbatim>\<open>token.Claims["id"].(string)\<close> has no second result: it panics on anything but a
  string. \<open>now\<close> is the clock reading of the parse.
\<close>

definition middlewareImpl ::
  "jwt \<Rightarrow> JWTMiddleware \<Rightarrow> writer \<Rightarrow> request \<Rightarrow> handler \<Rightarrow> time
     \<Rightarrow> (JWTMiddleware \<times> writer) outcome" where
  "middlewareImpl lib mw writer request handler now =
     (case parseToken lib request (Key mw) now of
        Inl err \<Rightarrow> Return (mw, unauthorized mw writer)
      | Inr token_Claims \<Rightarrow>
          (case index token_Claims ''id'' of
             String id' \<Rightarrow>
               (case Authorizator mw of
                  None \<Rightarrow> Panic
                | Some authorizator \<Rightarrow>
                    if \<not> authorizator id' request then Return (mw, unauthorized mw writer)
                    else Return (mw,
                      handler writer (request\<lparr>Env := (Env request)(''REMOTE_USER'' \<mapsto> String id')\<rparr>)))
           | _ \<Rightarrow> Panic))"


text \<open>
  \<^verbatim>\<open>LoginHandler\<close>. \<open>now1\<close> is the clock reading for \<^verbatim>\<open>exp\<close>, \<open>now2\<close> the one for
  \<^verbatim>\<open>orig_iat\<close>, taken only when \<^verbatim>\<open>MaxRefresh\<close> is not zero.
\<close>

definition LoginHandler ::
  "jwt \<Rightarrow> JWTMiddleware \<Rightarrow> writer \<Rightarrow> request \<Rightarrow> time \<Rightarrow> time
     \<Rightarrow> (JWTMiddleware \<times> writer) outcome" where
  "LoginHandler lib mw writer request now1 now2 =
     (case JsonPayload request of
        None \<Rightarrow> Return (mw, unauthorized mw writer)
      | Some login_vals \<Rightarrow>
          (case Authenticator mw of
             None \<Rightarrow> Panic
           | Some authenticator \<Rightarrow>
               if \<not> authenticator (Username login_vals) (Password login_vals)
               then Return (mw, unauthorized mw writer)
               else
                 let c1 = Map.empty(''id'' \<mapsto> String (Username login_vals));
                     c2 = c1(''exp'' \<mapsto> Int64 (Unix (Add now1 (Timeout mw))));
                     c3 = (if MaxRefresh mw \<noteq> 0 then c2(''orig_iat'' \<mapsto> Int64 (Unix now2)) else c2)
                 in (case SignedString lib (SigningAlgorithm mw) c3 (Key mw) of
                       Panic \<Rightarrow> Panic
                     | Return (Inl err) \<Rightarrow> Return (mw, unauthorized mw writer)
                     | Return (Inr tokenString) \<Rightarrow>
                         Return (mw, writer @ [WriteJson [(''token'', tokenString)]]))))"

text \<open>
  \<^verbatim>\<open>RefreshHandler\<close>. \<open>now1\<close> is the clock reading of the parse, \<open>now2\<close> the one of
  the window check, \<open>now3\<close> the one for the new \<^verbatim>\<open>exp\<close>. The type assertion
  \<^verbatim>\<open>token.Claims["orig_iat"].(float64)\<close> panics on anything but a \<^verbatim>\<open>float64\<close>.
  \<^verbatim>\<open>-mw.MaxRefresh\<close> is the negation of a 64-bit word, and \<open>cvt\<close> is the platform of the
  conversion \<^verbatim>\<open>int64(...)\<close>.
\<close>

definition RefreshHandler ::
  "platform \<Rightarrow> jwt \<Rightarrow> JWTMiddleware \<Rightarrow> writer \<Rightarrow> request \<Rightarrow> time \<Rightarrow> time \<Rightarrow> time
     \<Rightarrow> (JWTMiddleware \<times> writer) outcome" where
  "RefreshHandler cvt lib mw writer request now1 now2 now3 =
     (case parseToken lib request (Key mw) now1 of
        Inl err \<Rightarrow> Return (mw, unauthorized mw writer)
      | Inr token_Claims \<Rightarrow>
          (case index token_Claims ''orig_iat'' of
             Float64 x \<Rightarrow>
               let origIat = int64 cvt x in
               if origIat < Unix (Add now2 (- MaxRefresh mw))
               then Return (mw, unauthorized mw writer)
               else
                 let c1 = Map.empty(''id'' \<mapsto> index token_Claims ''id'');
                     c2 = c1(''exp'' \<mapsto> Int64 (Unix (Add now3 (Timeout mw))));
                     c3 = c2(''orig_iat'' \<mapsto> Int64 origIat)
                 in (case SignedString lib (SigningAlgorithm mw) c3 (Key mw) of
                       Panic \<Rightarrow> Panic
                     | Return (Inl err) \<Rightarrow> Return (mw, unauthorized mw writer)
                     | Return (Inr tokenString) \<Rightarrow>
                         Return (mw, writer @ [WriteJson [(''token'', tokenString)]]))
           | _ \<Rightarrow> Panic))"


subsection \<open>What the library promises\<close>








subsection \<open>Concrete inputs\<close>

text \<open>
  The inputs at which the theorems below are instantiated. \<open>stub presented parsed tosign
  minted\<close> is a library that knows one token to accept and one claim set to sign: it
  parses the string \<open>presented\<close> to the claims \<open>parsed\<close> and signs the claims \<open>tosign\<close>
  to the string \<open>minted\<close>; everything else is an error.
\<close>

definition stub :: "string \<Rightarrow> claims \<Rightarrow> claims \<Rightarrow> string \<Rightarrow> jwt" where
  "stub presented parsed tosign minted =
     \<lparr>SignedString = (\<lambda>alg c key.
        if c = tosign then Return (Inr minted) else Return (Inl ''key is invalid'')),
      Parse = (\<lambda>s key now. if s = presented then Inr parsed else Inl ''token is invalid'')\<rparr>"

text \<open>
  On amd64 the conversion of a \<^verbatim>\<open>float64\<close> that does not fit gives the smallest
  \<^verbatim>\<open>int64\<close>. \<open>at_second n\<close> is the instant \<open>n\<close> seconds after the epoch.
\<close>

definition amd64 :: platform where
  "amd64 x = 2 ^ 63"

definition at_second :: "int \<Rightarrow> time" where
  "at_second n = n * 1000000000"

definition example_mw :: JWTMiddleware where
  "example_mw =
     \<lparr>Realm = ''api'', SigningAlgorithm = ''HS256'', Key = Some [1, 2, 3], Timeout = Hour,
      MaxRefresh = 24 * Hour,
      Authenticator = Some (\<lambda>userId password. userId = ''alice'' \<and> password = ''secret''),
      Authorizator = Some (\<lambda>userId request. userId = ''alice''),
      NeedPrompt = False\<rparr>"

definition bearer :: "string \<Rightarrow> request" where
  "bearer tok =
     \<lparr>Header = [''Authorization'' \<mapsto> ''Bearer '' @ tok], Env = Map.empty, JsonPayload = None\<rparr>"

definition login_request :: "string \<Rightarrow> string \<Rightarrow> request" where
  "login_request u p =
     \<lparr>Header = Map.empty, Env = Map.empty,
      JsonPayload = Some \<lparr>Username = u, Password = p\<rparr>\<rparr>"

section \<open>Properties\<close>

subsection \<open>Auxiliary facts\<close>

lemma trunc_of_int: "trunc (of_int n) = n"
  by (simp add: trunc_def)

lemma int64_of_int: "fits_int64 (of_int n) \<Longrightarrow> int64 cvt (of_int n) = n"
  by (simp add: int64_def trunc_of_int)


lemma sint_Second: "sint Second = 1000000000"
  by (simp add: Second_def)

lemma sint_neg:
  fixes d :: "64 word"
  assumes "sint d \<noteq> - (2 ^ 63)"
  shows "sint (- d) = - sint d"
proof -
  have "- (2 ^ 63) \<le> sint d" "sint d < 2 ^ 63"
    using sint_ge [of d] sint_lt [of d] by simp_all
  with assms have "- (2 ^ 63) \<le> - sint d" "- sint d < 2 ^ 63"
    by simp_all
  then have "signed_take_bit 63 (- sint d) = - sint d"
    by (simp add: signed_take_bit_int_eq_self)
  then show ?thesis
    by (simp add: sint_word_ariths)
qed

lemma Add_neg: "sint d \<noteq> - (2 ^ 63) \<Longrightarrow> Add t (- d) = t - sint d"
  by (simp add: Add_def sint_neg)

lemma Unix_whole_seconds: "Unix (t - m * 1000000000) = Unix t - m"
proof -
  have "(t + (- m) * 1000000000) div 1000000000 = (- m) + t div 1000000000"
    by (rule div_mult_self1) simp
  then show ?thesis by (simp add: Unix_def)
qed

lemma Unix_next_second: "Unix (Add t Second - d) = Unix (t - d) + 1"
proof -
  have "(t - d + 1 * 1000000000) div 1000000000 = 1 + (t - d) div 1000000000"
    by (rule div_mult_self1) simp
  then show ?thesis by (simp add: Unix_def Add_def sint_Second add.commute)
qed

lemma token_response_not_unauthorized:
  "writer @ [WriteJson [(''token'', s)]] \<noteq> unauthorized mw writer"
  by (simp add: unauthorized_def)




lemma SplitN2_two:
  assumes "length (SplitN2 h sep) = 2"
  shows "h = SplitN2 h sep ! 0 @ sep # SplitN2 h sep ! 1"
proof -
  from assms have mem: "sep \<in> set h"
    by (auto simp: SplitN2_def split: if_splits)
  then have ne: "dropWhile (\<lambda>c. c \<noteq> sep) h \<noteq> []"
    by simp
  have "hd (dropWhile (\<lambda>c. c \<noteq> sep) h) = sep"
    using hd_dropWhile [OF ne] by simp
  with ne have "dropWhile (\<lambda>c. c \<noteq> sep) h = sep # tl (dropWhile (\<lambda>c. c \<noteq> sep) h)"
    by (cases "dropWhile (\<lambda>c. c \<noteq> sep) h") auto
  moreover have "h = takeWhile (\<lambda>c. c \<noteq> sep) h @ dropWhile (\<lambda>c. c \<noteq> sep) h"
    by simp
  ultimately show ?thesis using mem by (simp add: SplitN2_def)
qed

lemma RefreshHandler_unfold:
  assumes "parseToken lib request (Key mw) now1 = Inr c"
    and "index c ''orig_iat'' = Float64 x"
  shows "RefreshHandler cvt lib mw writer request now1 now2 now3 =
     (if int64 cvt x < Unix (Add now2 (- MaxRefresh mw)) then Return (mw, unauthorized mw writer)
      else (case SignedString lib (SigningAlgorithm mw)
                  [''id'' \<mapsto> index c ''id'',
                   ''exp'' \<mapsto> Int64 (Unix (Add now3 (Timeout mw))),
                   ''orig_iat'' \<mapsto> Int64 (int64 cvt x)] (Key mw) of
              Panic \<Rightarrow> Panic
            | Return (Inl err) \<Rightarrow> Return (mw, unauthorized mw writer)
            | Return (Inr tokenString) \<Rightarrow>
                Return (mw, writer @ [WriteJson [(''token'', tokenString)]])))"
  using assms by (simp add: RefreshHandler_def Let_def)

subsection \<open>Bearer extraction\<close>

text \<open>
  Claim C5, as the code has it. \<^verbatim>\<open>parseToken\<close> hands a candidate to the library
  exactly when the \<^verbatim>\<open>Authorization\<close> value is \<^verbatim>\<open>Bearer\<close>, one space, and then any text
  \<open>tok\<close>: the candidate is all of \<open>tok\<close>, which may be empty and may hold further spaces.
  Every other value (absent or empty, another scheme, no space after the scheme) gives
  the header error whatever the library is, so the library is not consulted.
\<close>

theorem parseToken_bearer:
  "(Header_Get request ''Authorization'' = ''Bearer '' @ tok \<longrightarrow>
      parseToken lib request key now = Parse lib tok key now) \<and>
   ((\<nexists>tok. Header_Get request ''Authorization'' = ''Bearer '' @ tok) \<longrightarrow>
      parseToken lib request key now =
        Inl (if Header_Get request ''Authorization'' = [] then ''Auth header empty''
             else ''Invalid auth header''))"
proof (intro conjI impI)
  assume "Header_Get request ''Authorization'' = ''Bearer '' @ tok"
  then show "parseToken lib request key now = Parse lib tok key now"
    by (simp add: parseToken_def SplitN2_def)
next
  let ?h = "Header_Get request ''Authorization''"
  assume no: "\<nexists>tok. ?h = ''Bearer '' @ tok"
  have "\<not> (length (SplitN2 ?h CHR '' '') = 2 \<and> SplitN2 ?h CHR '' '' ! 0 = ''Bearer'')"
  proof
    assume a: "length (SplitN2 ?h CHR '' '') = 2 \<and> SplitN2 ?h CHR '' '' ! 0 = ''Bearer''"
    then have "?h = ''Bearer'' @ CHR '' '' # SplitN2 ?h CHR '' '' ! 1"
      using SplitN2_two [of ?h "CHR '' ''"] by simp
    then have "?h = ''Bearer '' @ SplitN2 ?h CHR '' '' ! 1" by simp
    with no show False by blast
  qed
  then show "parseToken lib request key now =
        Inl (if ?h = [] then ''Auth header empty'' else ''Invalid auth header'')"
    by (simp add: parseToken_def Let_def)
qed

text \<open>
  C5 at concrete requests: \<^verbatim>\<open>Bearer T\<close> reaches the library with the candidate
  \<^verbatim>\<open>T\<close>; \<^verbatim>\<open>Basic T\<close> is refused by the header check.
\<close>

theorem parseToken_bearer_witness:
  "parseToken (stub ''T'' [''id'' \<mapsto> String ''alice''] Map.empty []) (bearer ''T'') None 0
     = Inr [''id'' \<mapsto> String ''alice''] \<and>
   parseToken (stub ''T'' [''id'' \<mapsto> String ''alice''] Map.empty [])
     \<lparr>Header = [''Authorization'' \<mapsto> ''Basic T''], Env = Map.empty, JsonPayload = None\<rparr> None 0
     = Inl ''Invalid auth header''"
proof -
  let ?lib = "stub ''T'' [''id'' \<mapsto> String ''alice''] Map.empty []"
  let ?bad = "\<lparr>Header = [''Authorization'' \<mapsto> ''Basic T''], Env = Map.empty, JsonPayload = None\<rparr>"
  have 1: "Header_Get (bearer ''T'') ''Authorization'' = ''Bearer '' @ ''T''"
    by (simp add: bearer_def Header_Get_def)
  have 2: "\<nexists>tok. Header_Get ?bad ''Authorization'' = ''Bearer '' @ tok"
    by (simp add: Header_Get_def)
  from parseToken_bearer [of "bearer ''T''" "''T''" ?lib None 0] 1
  have "parseToken ?lib (bearer ''T'') None 0 = Parse ?lib ''T'' None 0" by blast
  moreover from parseToken_bearer [of ?bad "''T''" ?lib None 0] 2
  have "parseToken ?lib ?bad None 0 = Inl ''Invalid auth header''"
    by (simp add: Header_Get_def)
  ultimately show ?thesis by (simp add: stub_def)
qed

text \<open>
  C5 as it was stated fails: the value \<^verbatim>\<open>Bearer a b\<close> has three parts between spaces,
  and yet it passes the header check. \<^verbatim>\<open>SplitN\<close> with the limit 2 cuts at the first
  space only, so the library is asked about the candidate \<^verbatim>\<open>a b\<close> (the only string
  this library accepts).
\<close>

theorem bearer_more_than_two_parts:
  "parseToken (stub ''a b'' [''id'' \<mapsto> String ''alice''] Map.empty []) (bearer ''a b'') None 0
     = Inr [''id'' \<mapsto> String ''alice'']"
  by (simp add: parseToken_def Header_Get_def bearer_def SplitN2_def stub_def)

subsection \<open>The unauthorized response\<close>

text \<open>
  Claim C8, as the code has it. The response of a rejection is fixed by the
  configuration alone. With \<^verbatim>\<open>NeedPrompt\<close> the writer gets the header
  \<^verbatim>\<open>WWW-Authenticate\<close> with the value \<^verbatim>\<open>Basic realm=\<close> followed by the realm as it is
  configured, with no quotation marks added, and then \<^verbatim>\<open>rest.Error\<close> with the message
  \<^verbatim>\<open>Not Authorized\<close> and the status 401. Without it the writer gets no status and no
  header, only the JSON body with the one entry \<^verbatim>\<open>Error\<close>: \<^verbatim>\<open>Not Authorized\<close>.
\<close>

theorem unauthorized_response:
  "unauthorized mw writer =
     writer @ (if NeedPrompt mw
               then [Header_Set ''WWW-Authenticate'' (''Basic realm='' @ Realm mw),
                     rest_Error ''Not Authorized'' 401]
               else [WriteJson [(''Error'', ''Not Authorized'')]])"
  by (simp add: unauthorized_def StatusUnauthorized_def)

text \<open>
  C8 as it was stated fails on the header value: for the realm \<^verbatim>\<open>api\<close> the code sends
  \<^verbatim>\<open>Basic realm=api\<close>, which is not the quoted form (\<open>CHR 0x22\<close> is the quotation
  mark).
\<close>

theorem unauthorized_realm_not_quoted:
  "unauthorized (example_mw\<lparr>NeedPrompt := True\<rparr>) [] =
     [Header_Set ''WWW-Authenticate'' ''Basic realm=api'', rest_Error ''Not Authorized'' 401] \<and>
   ''Basic realm=api'' \<noteq> ''Basic realm='' @ [CHR 0x22] @ ''api'' @ [CHR 0x22]"
  by (simp add: unauthorized_def StatusUnauthorized_def example_mw_def)

subsection \<open>The round trip of a freshly issued token\<close>



subsection \<open>The refresh window\<close>

text \<open>
  Claim C2, as the code has it. Let the presented token verify, let its \<^verbatim>\<open>orig_iat\<close>
  be a number \<open>x\<close> whose conversion fits 64 bits, and let \<^verbatim>\<open>MaxRefresh\<close> be any duration
  but the smallest one (whose negation wraps around). Times are compared in whole Unix
  seconds. If \<^verbatim>\<open>int64(x)\<close> is less than the Unix second of the clock reading \<open>now2\<close>
  minus \<^verbatim>\<open>MaxRefresh\<close>, the handler answers with the unauthorized response. Otherwise
  it goes on to sign the replacement token, and its answer is decided by the library: a
  signing error is answered with the unauthorized response too, a token string with the
  token. So, when the library signs, the request is rejected if and only if
  \<^verbatim>\<open>int64(x)\<close> is less than that second. At equality the window is still open, and one
  second later the same token is rejected whatever the other clock readings are. For a
  \<^verbatim>\<open>MaxRefresh\<close> of \<open>m\<close> whole seconds the second in question is the Unix second of
  \<open>now2\<close>, minus \<open>m\<close>.
\<close>

theorem refresh_window:
  assumes verified: "parseToken lib request (Key mw) now1 = Inr c"
    and iat: "index c ''orig_iat'' = Float64 x" "fits_int64 x"
    and range: "sint (MaxRefresh mw) \<noteq> - (2 ^ 63)"
  shows "(int64 cvt x < Unix (now2 - sint (MaxRefresh mw)) \<longrightarrow>
            RefreshHandler cvt lib mw writer request now1 now2 now3 =
              Return (mw, unauthorized mw writer)) \<and>
         (\<not> int64 cvt x < Unix (now2 - sint (MaxRefresh mw)) \<longrightarrow>
            RefreshHandler cvt lib mw writer request now1 now2 now3 =
              (case SignedString lib (SigningAlgorithm mw)
                      [''id'' \<mapsto> index c ''id'',
                       ''exp'' \<mapsto> Int64 (Unix (Add now3 (Timeout mw))),
                       ''orig_iat'' \<mapsto> Int64 (int64 cvt x)] (Key mw) of
                 Panic \<Rightarrow> Panic
               | Return (Inl err) \<Rightarrow> Return (mw, unauthorized mw writer)
               | Return (Inr tokenString) \<Rightarrow>
                   Return (mw, writer @ [WriteJson [(''token'', tokenString)]]))) \<and>
         (\<forall>tokenString.
            SignedString lib (SigningAlgorithm mw)
              [''id'' \<mapsto> index c ''id'',
               ''exp'' \<mapsto> Int64 (Unix (Add now3 (Timeout mw))),
               ''orig_iat'' \<mapsto> Int64 (int64 cvt x)] (Key mw) = Return (Inr tokenString) \<longrightarrow>
            (RefreshHandler cvt lib mw writer request now1 now2 now3 =
               Return (mw, unauthorized mw writer)
             \<longleftrightarrow> int64 cvt x < Unix (now2 - sint (MaxRefresh mw)))) \<and>
         (int64 cvt x = Unix (now2 - sint (MaxRefresh mw)) \<longrightarrow>
            (\<forall>now1' now3'. parseToken lib request (Key mw) now1' = Inr c \<longrightarrow>
               RefreshHandler cvt lib mw writer request now1' (Add now2 Second) now3' =
                 Return (mw, unauthorized mw writer))) \<and>
         (\<forall>m. sint (MaxRefresh mw) = m * 1000000000 \<longrightarrow>
            Unix (now2 - sint (MaxRefresh mw)) = Unix now2 - m)"
proof -
  let ?R = "RefreshHandler cvt lib mw writer request now1 now2 now3"
  let ?limit = "Unix (now2 - sint (MaxRefresh mw))"
  let ?sign = "SignedString lib (SigningAlgorithm mw)
                 [''id'' \<mapsto> index c ''id'',
                  ''exp'' \<mapsto> Int64 (Unix (Add now3 (Timeout mw))),
                  ''orig_iat'' \<mapsto> Int64 (int64 cvt x)] (Key mw)"
  have limit: "Unix (Add t (- MaxRefresh mw)) = Unix (t - sint (MaxRefresh mw))" for t
    by (simp add: Add_neg [OF range])
  have reject: "?R = Return (mw, unauthorized mw writer)" if "int64 cvt x < ?limit"
    using that by (simp add: RefreshHandler_unfold [OF verified iat(1)] limit)
  have mint: "?R = (case ?sign of
                 Panic \<Rightarrow> Panic
               | Return (Inl err) \<Rightarrow> Return (mw, unauthorized mw writer)
               | Return (Inr tokenString) \<Rightarrow>
                   Return (mw, writer @ [WriteJson [(''token'', tokenString)]]))"
    if "\<not> int64 cvt x < ?limit"
    using that by (simp add: RefreshHandler_unfold [OF verified iat(1)] limit)
  have iff: "?R = Return (mw, unauthorized mw writer) \<longleftrightarrow> int64 cvt x < ?limit"
    if "?sign = Return (Inr tokenString)" for tokenString
  proof (cases "int64 cvt x < ?limit")
    case True
    then show ?thesis by (simp add: reject)
  next
    case False
    then show ?thesis by (simp add: mint that token_response_not_unauthorized)
  qed
  have later: "RefreshHandler cvt lib mw writer request now1' (Add now2 Second) now3' =
                 Return (mw, unauthorized mw writer)"
    if "int64 cvt x = ?limit" "parseToken lib request (Key mw) now1' = Inr c" for now1' now3'
    using that(1) by (simp add: RefreshHandler_unfold [OF that(2) iat(1)] limit Unix_next_second)
  have whole: "?limit = Unix now2 - m" if "sint (MaxRefresh mw) = m * 1000000000" for m
    using that by (simp add: Unix_whole_seconds)
  from reject mint iff later whole show ?thesis by blast
qed

text \<open>
  C2 at the boundary: a token first issued at second 0, with a window of 24 hours, is
  refreshed at second 86400 and refused at second 86401.
\<close>

theorem refresh_window_witness:
  "RefreshHandler amd64
     (stub ''T'' [''id'' \<mapsto> String ''alice'', ''exp'' \<mapsto> Float64 86500, ''orig_iat'' \<mapsto> Float64 0]
        [''id'' \<mapsto> String ''alice'', ''exp'' \<mapsto> Int64 90000, ''orig_iat'' \<mapsto> Int64 0] ''T2'')
     example_mw [] (bearer ''T'') (at_second 86400) (at_second 86400) (at_second 86400)
   = Return (example_mw, [WriteJson [(''token'', ''T2'')]]) \<and>
   RefreshHandler amd64
     (stub ''T'' [''id'' \<mapsto> String ''alice'', ''exp'' \<mapsto> Float64 86500, ''orig_iat'' \<mapsto> Float64 0]
        [''id'' \<mapsto> String ''alice'', ''exp'' \<mapsto> Int64 90000, ''orig_iat'' \<mapsto> Int64 0] ''T2'')
     example_mw [] (bearer ''T'') (at_second 86401) (at_second 86401) (at_second 86401)
   = Return (example_mw, [WriteJson [(''Error'', ''Not Authorized'')]])"
proof -
  let ?c = "[''id'' \<mapsto> String ''alice'', ''exp'' \<mapsto> Float64 86500, ''orig_iat'' \<mapsto> Float64 0]"
  let ?lib = "stub ''T'' ?c
        [''id'' \<mapsto> String ''alice'', ''exp'' \<mapsto> Int64 90000, ''orig_iat'' \<mapsto> Int64 0] ''T2''"
  let ?t = "at_second 86400"
  have 1: "parseToken ?lib (bearer ''T'') (Key example_mw) now = Inr ?c" for now
    by (simp add: parseToken_def Header_Get_def bearer_def SplitN2_def stub_def)
  have 2: "index ?c ''orig_iat'' = Float64 0" "fits_int64 0"
    by (simp_all add: index_def fits_int64_def trunc_def)
  have 3: "sint (MaxRefresh example_mw) \<noteq> - (2 ^ 63)"
    by (simp add: example_mw_def Hour_def Second_def)
  have 4: "int64 amd64 0 = 0"
    by (simp add: int64_def fits_int64_def trunc_def)
  have 5: "Unix (?t - sint (MaxRefresh example_mw)) = 0"
    by (simp add: example_mw_def Unix_def at_second_def Hour_def Second_def)
  have 6: "SignedString ?lib (SigningAlgorithm example_mw)
             [''id'' \<mapsto> index ?c ''id'',
              ''exp'' \<mapsto> Int64 (Unix (Add ?t (Timeout example_mw))),
              ''orig_iat'' \<mapsto> Int64 0] (Key example_mw) = Return (Inr ''T2'')"
    by (simp add: stub_def index_def example_mw_def Unix_def Add_def at_second_def Hour_def
                  Second_def)
  have 7: "Add ?t Second = at_second 86401"
    by (simp add: Add_def Second_def at_second_def)
  note w = refresh_window [OF 1 [of ?t] 2 3, where cvt = amd64 and writer = "[]"
      and ?now2.0 = ?t and ?now3.0 = ?t]
  have a: "RefreshHandler amd64 ?lib example_mw [] (bearer ''T'') ?t ?t ?t =
             Return (example_mw, [WriteJson [(''token'', ''T2'')]])"
    using w [THEN conjunct2, THEN conjunct1] by (simp add: 4 5 6)
  have "RefreshHandler amd64 ?lib example_mw [] (bearer ''T'')
          (at_second 86401) (Add ?t Second) (at_second 86401) =
        Return (example_mw, unauthorized example_mw [])"
    using w [THEN conjunct2, THEN conjunct2, THEN conjunct2, THEN conjunct1] 1
    by (simp add: 4 5)
  then have b: "RefreshHandler amd64 ?lib example_mw [] (bearer ''T'')
               (at_second 86401) (at_second 86401) (at_second 86401) =
             Return (example_mw, [WriteJson [(''Error'', ''Not Authorized'')]])"
    by (simp add: 7 unauthorized_def example_mw_def)
  from a b show ?thesis ..
qed

text \<open>
  C2 as it was stated fails: a rejection does not imply that the window has closed.
  With the algorithm \<^verbatim>\<open>RS256\<close>, which \<^verbatim>\<open>MiddlewareFunc\<close> lets pass, the library cannot
  sign with a key of bytes; the handler answers a refresh 1800 seconds after the
  issuance with the unauthorized response, well inside the window of 24 hours.
\<close>

theorem refresh_rejected_inside_window:
  "RefreshHandler amd64
     (stub ''T'' [''id'' \<mapsto> String ''alice'', ''exp'' \<mapsto> Float64 3600, ''orig_iat'' \<mapsto> Float64 0]
        Map.empty [])
     (example_mw\<lparr>SigningAlgorithm := ''RS256''\<rparr>) [] (bearer ''T'')
     (at_second 1800) (at_second 1800) (at_second 1800)
   = Return (example_mw\<lparr>SigningAlgorithm := ''RS256''\<rparr>, [WriteJson [(''Error'', ''Not Authorized'')]]) \<and>
   \<not> int64 amd64 0 < Unix (at_second 1800 - sint (MaxRefresh example_mw))"
  by (simp add: RefreshHandler_def parseToken_def Header_Get_def bearer_def SplitN2_def stub_def
                index_def int64_def fits_int64_def trunc_def unauthorized_def example_mw_def
                Unix_def Add_def at_second_def Hour_def Second_def)

subsection \<open>What a refresh puts into the new token\<close>

text \<open>
  Claim C4. Let the presented token verify with the original issuance second \<open>t0\<close> as
  its \<^verbatim>\<open>orig_iat\<close>. The refresh handler answers with a token string exactly when the
  window is open and the library signs, under the configured algorithm and key, these
  claims to that string: \<^verbatim>\<open>id\<close> as the presented token has it, \<^verbatim>\<open>orig_iat\<close> equal
  to \<open>t0\<close>, and \<^verbatim>\<open>exp\<close> equal to the Unix second of the refresh-time clock reading
  \<open>now3\<close> plus the timeout. The old expiry plays no part.
\<close>

theorem refresh_claims:
  assumes verified: "parseToken lib request (Key mw) now1 = Inr c"
    and iat: "index c ''orig_iat'' = Float64 (of_int t0)" "fits_int64 (of_int t0)"
  shows "RefreshHandler cvt lib mw writer request now1 now2 now3 =
           Return (mw, writer @ [WriteJson [(''token'', tokenString)]])
         \<longleftrightarrow>
         \<not> t0 < Unix (Add now2 (- MaxRefresh mw)) \<and>
         SignedString lib (SigningAlgorithm mw)
           [''id'' \<mapsto> index c ''id'',
            ''exp'' \<mapsto> Int64 (Unix (Add now3 (Timeout mw))),
            ''orig_iat'' \<mapsto> Int64 t0] (Key mw) = Return (Inr tokenString)"
  by (auto simp: RefreshHandler_unfold [OF verified iat(1)] int64_of_int [OF iat(2)]
                 unauthorized_def
           split: if_splits outcome.splits sum.splits)

text \<open>
  C4 at a concrete refresh: a token issued at second 0 is refreshed at second 1800 with
  a timeout of one hour; the handler answers with the token signed for \<^verbatim>\<open>orig_iat\<close> 0
  and \<^verbatim>\<open>exp\<close> 5400.
\<close>

theorem refresh_claims_witness:
  "RefreshHandler amd64
     (stub ''T'' [''id'' \<mapsto> String ''alice'', ''exp'' \<mapsto> Float64 3600, ''orig_iat'' \<mapsto> Float64 0]
        [''id'' \<mapsto> String ''alice'', ''exp'' \<mapsto> Int64 5400, ''orig_iat'' \<mapsto> Int64 0] ''T2'')
     example_mw [] (bearer ''T'') (at_second 1800) (at_second 1800) (at_second 1800)
   = Return (example_mw, [WriteJson [(''token'', ''T2'')]])"
proof -
  let ?c = "[''id'' \<mapsto> String ''alice'', ''exp'' \<mapsto> Float64 3600, ''orig_iat'' \<mapsto> Float64 0]"
  let ?lib = "stub ''T'' ?c
        [''id'' \<mapsto> String ''alice'', ''exp'' \<mapsto> Int64 5400, ''orig_iat'' \<mapsto> Int64 0] ''T2''"
  let ?t = "at_second 1800"
  have 1: "parseToken ?lib (bearer ''T'') (Key example_mw) ?t = Inr ?c"
    by (simp add: parseToken_def Header_Get_def bearer_def SplitN2_def stub_def)
  have 2: "index ?c ''orig_iat'' = Float64 (of_int 0)" "fits_int64 (of_int 0)"
    by (simp_all add: index_def fits_int64_def trunc_def)
  have 3: "\<not> 0 < Unix (Add ?t (- MaxRefresh example_mw)) \<and>
           SignedString ?lib (SigningAlgorithm example_mw)
             [''id'' \<mapsto> index ?c ''id'',
              ''exp'' \<mapsto> Int64 (Unix (Add ?t (Timeout example_mw))),
              ''orig_iat'' \<mapsto> Int64 0] (Key example_mw) = Return (Inr ''T2'')"
    by (simp add: stub_def index_def example_mw_def Unix_def Add_def at_second_def Hour_def
                  Second_def)
  from refresh_claims [OF 1 2, where cvt = amd64 and writer = "[]" and ?now2.0 = ?t
      and ?now3.0 = ?t and tokenString = "''T2''", THEN iffD2, OF 3]
  show ?thesis by simp
qed

subsection \<open>The gate\<close>

text \<open>
  Claim C6. When \<^verbatim>\<open>parseToken\<close> fails (the header check or the library's
  verification), and when the authorization callback returns false for the identity of a
  verified token, \<^verbatim>\<open>middlewareImpl\<close> returns the unauthorized response, the same for
  every wrapped handler. Its outcome can differ between two wrapped handlers only if the
  token was verified, its \<^verbatim>\<open>id\<close> is a string and the authorization callback returned
  true: in no other case is the wrapped handler called.
\<close>

theorem gate_short_circuit:
  "(parseToken lib request (Key mw) now = Inl err \<longrightarrow>
      middlewareImpl lib mw writer request handler now = Return (mw, unauthorized mw writer)) \<and>
   (parseToken lib request (Key mw) now = Inr c \<and> index c ''id'' = String userId \<and>
    Authorizator mw = Some authorizator \<and> \<not> authorizator userId request \<longrightarrow>
      middlewareImpl lib mw writer request handler now = Return (mw, unauthorized mw writer)) \<and>
   (middlewareImpl lib mw writer request handler now
      \<noteq> middlewareImpl lib mw writer request handler' now \<longrightarrow>
      (\<exists>c userId authorizator.
         parseToken lib request (Key mw) now = Inr c \<and> index c ''id'' = String userId \<and>
         Authorizator mw = Some authorizator \<and> authorizator userId request))"
  by (auto simp: middlewareImpl_def split: sum.splits jvalue.splits option.splits if_splits)

text \<open>
  C6 at two concrete requests, with a handler that would write \<^verbatim>\<open>served\<close>: a token the
  library refuses, and a verified token of bob, whom the authorization callback refuses.
  Neither response shows a trace of the handler.
\<close>

theorem gate_short_circuit_witness:
  "middlewareImpl (stub ''T'' [''id'' \<mapsto> String ''bob'', ''exp'' \<mapsto> Float64 3600] Map.empty [])
     example_mw [] (bearer ''forged'') (\<lambda>writer request. writer @ [WriteJson [(''served'', ''yes'')]]) 0
     = Return (example_mw, [WriteJson [(''Error'', ''Not Authorized'')]]) \<and>
   middlewareImpl (stub ''T'' [''id'' \<mapsto> String ''bob'', ''exp'' \<mapsto> Float64 3600] Map.empty [])
     example_mw [] (bearer ''T'') (\<lambda>writer request. writer @ [WriteJson [(''served'', ''yes'')]]) 0
     = Return (example_mw, [WriteJson [(''Error'', ''Not Authorized'')]])"
proof -
  let ?c = "[''id'' \<mapsto> String ''bob'', ''exp'' \<mapsto> Float64 3600]"
  let ?lib = "stub ''T'' ?c Map.empty []"
  let ?h = "\<lambda>writer request. writer @ [WriteJson [(''served'', ''yes'')]]"
  have 1: "parseToken ?lib (bearer ''forged'') (Key example_mw) 0 = Inl ''token is invalid''"
    by (simp add: parseToken_def Header_Get_def bearer_def SplitN2_def stub_def)
  have 2: "parseToken ?lib (bearer ''T'') (Key example_mw) 0 = Inr ?c \<and>
           index ?c ''id'' = String ''bob'' \<and>
           Authorizator example_mw = Some (\<lambda>userId request. userId = ''alice'') \<and>
           \<not> (\<lambda>userId request. userId = ''alice'') ''bob'' (bearer ''T'')"
    by (simp add: parseToken_def Header_Get_def bearer_def SplitN2_def stub_def index_def
                  example_mw_def)
  note a = gate_short_circuit [where lib = ?lib and mw = example_mw and writer = "[]"
      and request = "bearer ''forged''" and handler = ?h and now = 0
      and err = "''token is invalid''", THEN conjunct1, THEN mp, OF 1]
  note b = gate_short_circuit [where lib = ?lib and mw = example_mw and writer = "[]"
      and request = "bearer ''T''" and handler = ?h and now = 0 and c = ?c
      and userId = "''bob''" and authorizator = "\<lambda>userId request. userId = ''alice''",
      THEN conjunct2, THEN conjunct1, THEN mp, OF 2]
  from a b show ?thesis by (simp add: unauthorized_def example_mw_def)
qed

text \<open>
  Claim C9. \<^verbatim>\<open>middlewareImpl\<close> leaves the configuration as it found it. When the token
  is verified, its \<^verbatim>\<open>id\<close> is a string and the authorization callback agrees, the wrapped
  handler is called with the writer untouched and with the request changed in one place
  only: its environment now maps \<^verbatim>\<open>REMOTE_USER\<close> to the identity.
\<close>

theorem gate_frame:
  "(middlewareImpl lib mw writer request handler now = Return (mw', writer') \<longrightarrow> mw' = mw) \<and>
   (parseToken lib request (Key mw) now = Inr c \<and> index c ''id'' = String userId \<and>
    Authorizator mw = Some authorizator \<and> authorizator userId request \<longrightarrow>
      (\<exists>request'.
         middlewareImpl lib mw writer request handler now = Return (mw, handler writer request') \<and>
         Env request' = (Env request)(''REMOTE_USER'' \<mapsto> String userId) \<and>
         Header request' = Header request \<and> JsonPayload request' = JsonPayload request))"
  by (auto simp: middlewareImpl_def split: sum.splits jvalue.splits option.splits if_splits)

text \<open>
  C9 at a concrete request: the wrapped handler reports the \<^verbatim>\<open>REMOTE_USER\<close> it finds,
  and the configuration comes back unchanged.
\<close>

theorem gate_frame_witness:
  "middlewareImpl (stub ''T'' [''id'' \<mapsto> String ''alice'', ''exp'' \<mapsto> Float64 3600] Map.empty [])
     example_mw [] (bearer ''T'')
     (\<lambda>writer request. writer @ [WriteJson [(''user'',
         case index (Env request) ''REMOTE_USER'' of String u \<Rightarrow> u | _ \<Rightarrow> ''nobody'')]]) 0
     = Return (example_mw, [WriteJson [(''user'', ''alice'')]])"
proof -
  let ?c = "[''id'' \<mapsto> String ''alice'', ''exp'' \<mapsto> Float64 3600]"
  let ?lib = "stub ''T'' ?c Map.empty []"
  let ?h = "\<lambda>writer request. writer @ [WriteJson [(''user'',
         case index (Env request) ''REMOTE_USER'' of String u \<Rightarrow> u | _ \<Rightarrow> ''nobody'')]]"
  have 1: "parseToken ?lib (bearer ''T'') (Key example_mw) 0 = Inr ?c \<and>
           index ?c ''id'' = String ''alice'' \<and>
           Authorizator example_mw = Some (\<lambda>userId request. userId = ''alice'') \<and>
           (\<lambda>userId request. userId = ''alice'') ''alice'' (bearer ''T'')"
    by (simp add: parseToken_def Header_Get_def bearer_def SplitN2_def stub_def index_def
                  example_mw_def)
  note gate_frame [where lib = ?lib and mw = example_mw and writer = "[]"
      and request = "bearer ''T''" and handler = ?h and now = 0 and c = ?c
      and userId = "''alice''" and authorizator = "\<lambda>userId request. userId = ''alice''",
      THEN conjunct2, THEN mp, OF 1]
  then show ?thesis
    by (elim exE conjE) (simp add: index_def)
qed

text \<open>
  Claim C1, against the code: when the verified token has no \<^verbatim>\<open>id\<close>, or one that is
  not a string, the gate does not answer with the unauthorized response. The type
  assertion \<^verbatim>\<open>token.Claims["id"].(string)\<close> panics.
\<close>

theorem gate_id_not_string_panics:
  assumes "parseToken lib request (Key mw) now = Inr c"
    and "\<nexists>userId. index c ''id'' = String userId"
  shows "middlewareImpl lib mw writer request handler now = Panic"
  using assms by (auto simp: middlewareImpl_def split: jvalue.splits)

text \<open>
  C1 at a concrete request: a token that the library accepts and whose claims hold
  \<^verbatim>\<open>exp\<close> only.
\<close>

theorem gate_id_not_string_panics_witness:
  "middlewareImpl (stub ''T'' [''exp'' \<mapsto> Float64 3600] Map.empty [])
     example_mw [] (bearer ''T'') (\<lambda>writer request. writer) 0 = Panic"
proof -
  let ?c = "[''exp'' \<mapsto> Float64 3600]"
  let ?lib = "stub ''T'' ?c Map.empty []"
  have 1: "parseToken ?lib (bearer ''T'') (Key example_mw) 0 = Inr ?c"
    by (simp add: parseToken_def Header_Get_def bearer_def SplitN2_def stub_def)
  have 2: "\<nexists>userId. index ?c ''id'' = String userId"
    by (simp add: index_def)
  show ?thesis
    by (rule gate_id_not_string_panics [OF 1 2])
qed

subsection \<open>A refresh without \<^verbatim>\<open>orig_iat\<close>\<close>

text \<open>
  Claim C10. When the verified token has no \<^verbatim>\<open>orig_iat\<close>, or one that is not a
  \<^verbatim>\<open>float64\<close>, the refresh handler panics at the type assertion
  \<^verbatim>\<open>token.Claims["orig_iat"].(float64)\<close>; it does not answer with the unauthorized
  response.
\<close>

theorem refresh_orig_iat_not_float_panics:
  assumes "parseToken lib request (Key mw) now1 = Inr c"
    and "\<nexists>x. index c ''orig_iat'' = Float64 x"
  shows "RefreshHandler cvt lib mw writer request now1 now2 now3 = Panic \<and>
         RefreshHandler cvt lib mw writer request now1 now2 now3 \<noteq> Return (mw, unauthorized mw writer)"
  using assms by (auto simp: RefreshHandler_def split: jvalue.splits)

text \<open>
  C10 at a request that arises in use: with \<^verbatim>\<open>MaxRefresh\<close> 0 the login handler signs
  claims without \<^verbatim>\<open>orig_iat\<close>, and the refresh handler panics on the token it gets back.
\<close>

theorem refresh_orig_iat_not_float_panics_witness:
  "LoginHandler
     (stub ''T'' [''id'' \<mapsto> String ''alice'', ''exp'' \<mapsto> Float64 3600]
        [''id'' \<mapsto> String ''alice'', ''exp'' \<mapsto> Int64 3600] ''T'')
     (example_mw\<lparr>MaxRefresh := 0\<rparr>) [] (login_request ''alice'' ''secret'') 0 0
     = Return (example_mw\<lparr>MaxRefresh := 0\<rparr>, [WriteJson [(''token'', ''T'')]]) \<and>
   RefreshHandler amd64
     (stub ''T'' [''id'' \<mapsto> String ''alice'', ''exp'' \<mapsto> Float64 3600]
        [''id'' \<mapsto> String ''alice'', ''exp'' \<mapsto> Int64 3600] ''T'')
     (example_mw\<lparr>MaxRefresh := 0\<rparr>) [] (bearer ''T'')
     (at_second 1) (at_second 1) (at_second 1) = Panic"
proof -
  let ?c = "[''id'' \<mapsto> String ''alice'', ''exp'' \<mapsto> Float64 3600]"
  let ?lib = "stub ''T'' ?c [''id'' \<mapsto> String ''alice'', ''exp'' \<mapsto> Int64 3600] ''T''"
  let ?mw = "example_mw\<lparr>MaxRefresh := 0\<rparr>"
  have 0: "LoginHandler ?lib ?mw [] (login_request ''alice'' ''secret'') 0 0
             = Return (?mw, [WriteJson [(''token'', ''T'')]])"
    by (simp add: LoginHandler_def example_mw_def login_request_def stub_def Unix_def Add_def
                  Second_def Hour_def)
  have 1: "parseToken ?lib (bearer ''T'') (Key ?mw) (at_second 1) = Inr ?c"
    by (simp add: parseToken_def Header_Get_def bearer_def SplitN2_def stub_def)
  have 2: "\<nexists>x. index ?c ''orig_iat'' = Float64 x"
    by (simp add: index_def)
  from refresh_orig_iat_not_float_panics [OF 1 2, where cvt = amd64 and writer = "[]"
      and ?now2.0 = "at_second 1" and ?now3.0 = "at_second 1"]
  have "RefreshHandler amd64 ?lib ?mw [] (bearer ''T'') (at_second 1) (at_second 1) (at_second 1)
          = Panic" ..
  with 0 show ?thesis ..
qed

subsection \<open>Validation of the configuration\<close>




end
